theory Spec2Isabelle
  imports Complex_Main
begin

section \<open>Sawyer door environments: data model\<close>

text \<open>
  The development follows \<^verbatim>\<open>multiworld/envs/mujoco/sawyer_door/sawyer_door_env.py\<close>.
  NumPy float arrays are lists of reals, three-component rows of the physics engine
  (\<^verbatim>\<open>body_xpos\<close>, \<^verbatim>\<open>mocap_pos\<close>) are triples, quaternions are four-tuples. Every Python
  exception that the modelled code can raise is a value of \<open>py_error\<close>.
\<close>

text \<open>Keys used to index a Python \<^verbatim>\<open>dict\<close>: strings and integers.\<close>

datatype py_key = KStr string | KInt int

datatype py_error =
    NameError string
  | TypeError string
  | ValueError string
  | KeyError py_key
  | IndexError string
  | NotImplementedError string

type_synonym vec3 = "real \<times> real \<times> real"
type_synonym quat = "real \<times> real \<times> real \<times> real"

text \<open>The part of \<^verbatim>\<open>sim.data\<close> that the environment reads and writes. The scene has one
  mocap body (\<^verbatim>\<open>'mocap'\<close>), so \<^verbatim>\<open>data.mocap_pos\<close> is its single row; \<open>body_xpos\<close> and
  \<open>body_xquat\<close> are the rows of the end effector (\<^verbatim>\<open>leftclaw\<close>).\<close>

record sim_data =
  qpos :: "real list"
  qvel :: "real list"
  mocap_pos :: vec3
  mocap_quat :: quat
  body_xpos :: vec3
  body_xquat :: quat

datatype variant =
    SawyerDoorEnv
  | SawyerDoorPushOpenEnv
  | SawyerDoorPushOpenActionLimitedEnv
  | SawyerDoorPushOpenAndReachEnv
  | SawyerDoorPullOpenEnv

text \<open>The attributes of an environment instance.\<close>

record env =
  cls :: variant
  data :: sim_data
  frame_skip :: nat
  reward_type :: string
  indicator_threshold :: real
  fix_goal :: bool
  fixed_goal :: "real list"
  goal_space_low :: "real list"
  goal_space_high :: "real list"
  pos_action_scale :: real
  action_reward_scale :: real
  goal_angle :: "real list"
  goal_pos :: "real list"
  max_x_pos :: real
  max_y_pos :: real
  min_y_pos :: real
  target_pos_scale :: real
  target_angle_scale :: real

type_synonym info = "string \<rightharpoonup> real list"

text \<open>The observation dictionary built by \<^verbatim>\<open>_get_obs\<close>.\<close>

type_synonym obs = "py_key \<rightharpoonup> real list"

text \<open>The two entry points of the physics engine that the environment calls through
  \<^verbatim>\<open>MujocoEnv\<close>; the engine itself is outside the repository and stays a parameter.\<close>

record physics =
  do_simulation :: "real list \<Rightarrow> nat \<Rightarrow> sim_data \<Rightarrow> sim_data"
  forward :: "sim_data \<Rightarrow> sim_data"

section \<open>NumPy operations on one-dimensional arrays\<close>

text \<open>Element-wise binary operation with NumPy's broadcasting of one-dimensional operands:
  equal lengths combine pointwise, a length-one operand is stretched, anything else raises.\<close>

definition np_broadcastable :: "real list \<Rightarrow> real list \<Rightarrow> bool" where
  "np_broadcastable xs ys = (length xs = length ys \<or> length xs = 1 \<or> length ys = 1)"

definition np_binop :: "(real \<Rightarrow> real \<Rightarrow> real) \<Rightarrow> real list \<Rightarrow> real list \<Rightarrow> py_error + real list" where
  "np_binop f xs ys =
     (if length xs = length ys then Inr (map2 f xs ys)
      else if length xs = 1 then Inr (map (f (hd xs)) ys)
      else if length ys = 1 then Inr (map (\<lambda>x. f x (hd ys)) xs)
      else Inl (ValueError ''operands could not be broadcast together''))"

definition np_sub :: "real list \<Rightarrow> real list \<Rightarrow> py_error + real list" where
  "np_sub = np_binop (\<lambda>x y. x - y)"

definition np_abs :: "real list \<Rightarrow> real list" where
  "np_abs = map abs"

definition np_clip :: "real \<Rightarrow> real \<Rightarrow> real \<Rightarrow> real" where
  "np_clip x lo hi = min (max x lo) hi"

section \<open>Rewards\<close>

text \<open>\<^verbatim>\<open>SawyerDoorEnv.compute_rewards\<close>: the absolute difference is computed first, then the
  branch on \<^verbatim>\<open>reward_type\<close>; \<^verbatim>\<open>(r < threshold).astype(float)\<close> is 1.0 where the comparison
  holds and 0.0 elsewhere.\<close>

definition compute_rewards :: "env \<Rightarrow> real list \<Rightarrow> real list \<Rightarrow> info \<Rightarrow> py_error + real list" where
  "compute_rewards self achieved_goals desired_goals env_info =
     (case np_sub achieved_goals desired_goals of
        Inl e \<Rightarrow> Inl e
      | Inr d \<Rightarrow>
          (let r = np_abs d in
           if reward_type self = ''angle_difference'' then Inr (map uminus r)
           else if reward_type self = ''hand_success'' then
             Inr (map (\<lambda>x. - (if x < indicator_threshold self then 1 else 0)) r)
           else Inl (NotImplementedError ''Invalid/no reward type.'')))"

text \<open>An instance carrying the keyword defaults of \<^verbatim>\<open>SawyerDoorEnv.__init__\<close> and of
  \<^verbatim>\<open>SawyerDoorPushOpenActionLimitedEnv.__init__\<close>, with the joints at \<^verbatim>\<open>init_angles\<close>;
  used to run the operations on concrete inputs.\<close>

definition init_angles :: "real list" where
  "init_angles = [0, 1.02866769, - 0.695207647, 0.422932911,
                  1.76670458, - 0.569637604, 0.624117280, 3.53404635]"

definition example_data :: sim_data where
  "example_data = \<lparr> qpos = init_angles, qvel = replicate 8 0,
     mocap_pos = (0, 0.6, 0.06), mocap_quat = (1, 0, 1, 0),
     body_xpos = (0, 0.6, 0.06), body_xquat = (1, 0, 1, 0) \<rparr>"

definition example_env :: env where
  "example_env = \<lparr> cls = SawyerDoorPushOpenEnv, data = example_data, frame_skip = 30,
     reward_type = ''angle_difference'', indicator_threshold = 0.02,
     fix_goal = False, fixed_goal = [0.15, 0.6, 0.3],
     goal_space_low = [- 1.5708], goal_space_high = [1.5708],
     pos_action_scale = 1 / 100, action_reward_scale = 0,
     goal_angle = [0.3], goal_pos = [0, 0.55, 0.06],
     max_x_pos = 0.1, max_y_pos = 0.7, min_y_pos = 0.5,
     target_pos_scale = 0, target_angle_scale = 1 \<rparr>"

section \<open>Action mapping\<close>

definition dict_get :: "(py_key \<rightharpoonup> 'v) \<Rightarrow> py_key \<Rightarrow> py_error + 'v" where
  "dict_get d k = (case d k of None \<Rightarrow> Inl (KeyError k) | Some v \<Rightarrow> Inr v)"

text \<open>\<^verbatim>\<open>reset_mocap2body_xpos\<close>: the mocap target is moved onto the end effector.\<close>

definition reset_mocap2body_xpos :: "sim_data \<Rightarrow> sim_data" where
  "reset_mocap2body_xpos d = d\<lparr>mocap_pos := body_xpos d, mocap_quat := body_xquat d\<rparr>"

text \<open>\<^verbatim>\<open>self.data.mocap_pos + pos_delta\<close>, a (1,3) array plus a (1,k) array: \<open>k = 3\<close> adds
  component by component, \<open>k = 1\<close> is broadcast, any other \<open>k\<close> raises.\<close>

definition add_pos_delta :: "vec3 \<Rightarrow> real list \<Rightarrow> py_error + vec3" where
  "add_pos_delta p delta =
     (case p of (x, y, z) \<Rightarrow>
        (case delta of
           [dx, dy, dz] \<Rightarrow> Inr (x + dx, y + dy, z + dz)
         | [d] \<Rightarrow> Inr (x + d, y + d, z + d)
         | _ \<Rightarrow> Inl (ValueError ''operands could not be broadcast together'')))"

definition SawyerDoorEnv_mocap_set_action :: "env \<Rightarrow> real list \<Rightarrow> py_error + env" where
  "SawyerDoorEnv_mocap_set_action self action =
     (let d = reset_mocap2body_xpos (data self) in
      case add_pos_delta (mocap_pos d) action of
        Inl e \<Rightarrow> Inl e
      | Inr (x, y, z) \<Rightarrow>
          Inr (self\<lparr>data := d\<lparr>mocap_pos := (x, y, np_clip 0.06 0 0.5),
                                mocap_quat := (1, 0, 1, 0)\<rparr>\<rparr>))"

definition SawyerDoorPushOpenEnv_mocap_set_action :: "env \<Rightarrow> real list \<Rightarrow> py_error + env" where
  "SawyerDoorPushOpenEnv_mocap_set_action self action =
     (let d = reset_mocap2body_xpos (data self) in
      case add_pos_delta (mocap_pos d) action of
        Inl e \<Rightarrow> Inl e
      | Inr (x, y, z) \<Rightarrow>
          Inr (self\<lparr>data := d\<lparr>mocap_pos :=
                   (np_clip x (- 0.15) 0.15, np_clip y 0.5 2, np_clip 0.06 0 0.5),
                 mocap_quat := (1, 0, 1, 0)\<rparr>\<rparr>))"

definition SawyerDoorPushOpenActionLimitedEnv_mocap_set_action ::
    "env \<Rightarrow> real list \<Rightarrow> py_error + env" where
  "SawyerDoorPushOpenActionLimitedEnv_mocap_set_action self action =
     (let d = reset_mocap2body_xpos (data self) in
      case add_pos_delta (mocap_pos d) action of
        Inl e \<Rightarrow> Inl e
      | Inr (x, y, z) \<Rightarrow>
          Inr (self\<lparr>data := d\<lparr>mocap_pos :=
                   (np_clip x (- max_x_pos self) (max_x_pos self),
                    np_clip y (min_y_pos self) (max_y_pos self),
                    np_clip 0.06 0 0.5),
                 mocap_quat := (1, 0, 1, 0)\<rparr>\<rparr>))"

definition SawyerDoorPullOpenEnv_mocap_set_action :: "env \<Rightarrow> real list \<Rightarrow> py_error + env" where
  "SawyerDoorPullOpenEnv_mocap_set_action self action =
     (let d = reset_mocap2body_xpos (data self) in
      case add_pos_delta (mocap_pos d) action of
        Inl e \<Rightarrow> Inl e
      | Inr (x, y, z) \<Rightarrow>
          Inr (self\<lparr>data := d\<lparr>mocap_pos :=
                   (np_clip x (- 0.15) 0.15, np_clip y (- 3) 0.7, np_clip 0.06 0 0.5),
                 mocap_quat := (1, 0, 1, 0)\<rparr>\<rparr>))"

text \<open>Method resolution of \<^verbatim>\<open>self.mocap_set_action\<close>: the push-open-and-reach class inherits
  the push-open method.\<close>

definition mocap_set_action :: "env \<Rightarrow> real list \<Rightarrow> py_error + env" where
  "mocap_set_action self action =
     (case cls self of
        SawyerDoorEnv \<Rightarrow> SawyerDoorEnv_mocap_set_action self action
      | SawyerDoorPushOpenEnv \<Rightarrow> SawyerDoorPushOpenEnv_mocap_set_action self action
      | SawyerDoorPushOpenActionLimitedEnv \<Rightarrow>
          SawyerDoorPushOpenActionLimitedEnv_mocap_set_action self action
      | SawyerDoorPushOpenAndReachEnv \<Rightarrow> SawyerDoorPushOpenEnv_mocap_set_action self action
      | SawyerDoorPullOpenEnv \<Rightarrow> SawyerDoorPullOpenEnv_mocap_set_action self action)"

text \<open>The first two lines of \<^verbatim>\<open>step\<close>: \<^verbatim>\<open>a = np.clip(a, -1, 1)\<close> and the displacement
  \<^verbatim>\<open>a[:3] * self._pos_action_scale\<close> handed to \<^verbatim>\<open>mocap_set_action\<close>.\<close>

definition clip_action :: "real list \<Rightarrow> real list" where
  "clip_action a = map (\<lambda>x. np_clip x (- 1) 1) a"

definition pos_delta :: "env \<Rightarrow> real list \<Rightarrow> real list" where
  "pos_delta self a = map (\<lambda>x. x * pos_action_scale self) (take 3 (clip_action a))"

definition apply_action :: "env \<Rightarrow> real list \<Rightarrow> py_error + env" where
  "apply_action self a = mocap_set_action self (pos_delta self a)"

section \<open>Observations, diagnostics and stepping\<close>

text \<open>\<^verbatim>\<open>get_door_angle\<close> reads the hinge joint \<^verbatim>\<open>doorjoint\<close>, which is entry 0 of \<^verbatim>\<open>qpos\<close>; the
  lookup by name raises when the model has no such joint.\<close>

definition get_door_angle :: "env \<Rightarrow> py_error + real list" where
  "get_door_angle self =
     (case qpos (data self) of [] \<Rightarrow> Inl (ValueError ''doorjoint'') | q # _ \<Rightarrow> Inr [q])"

definition get_endeff_pos :: "env \<Rightarrow> real list" where
  "get_endeff_pos self = (case body_xpos (data self) of (x, y, z) \<Rightarrow> [x, y, z])"

definition get_obs :: "env \<Rightarrow> py_error + obs" where
  "get_obs self =
     (case get_door_angle self of
        Inl e \<Rightarrow> Inl e
      | Inr angle \<Rightarrow>
          (let flat_obs = get_endeff_pos self @ angle in
           Inr (map_of
             [(KStr ''observation'', flat_obs),
              (KStr ''desired_goal'', goal_angle self),
              (KStr ''achieved_goal'', angle),
              (KStr ''state_observation'', flat_obs),
              (KStr ''state_desired_goal'', goal_angle self),
              (KStr ''state_achieved_goal'', angle)])))"

definition get_info :: "env \<Rightarrow> py_error + info" where
  "get_info self =
     (case get_door_angle self of
        Inl e \<Rightarrow> Inl e
      | Inr angle \<Rightarrow>
          (case np_sub angle (goal_angle self) of
             Inl e \<Rightarrow> Inl e
           | Inr d \<Rightarrow>
               (let angle_diff = np_abs d in
                Inr (map_of
                  [(''angle_difference'', angle_diff),
                   (''angle_success'',
                      map (\<lambda>x. if x < indicator_threshold self then 1 else 0) angle_diff)]))))"

text \<open>\<^verbatim>\<open>SawyerDoorEnv.step\<close>. The single-sample \<^verbatim>\<open>compute_reward\<close> belongs to the
  \<^verbatim>\<open>MultitaskEnv\<close> base class and is a parameter here. The result carries the updated
  instance together with the returned tuple \<open>(obs, reward, done, info)\<close>.\<close>

type_synonym step_result = "env \<times> obs \<times> real \<times> bool \<times> info"

definition SawyerDoorEnv_step ::
    "physics \<Rightarrow> (env \<Rightarrow> real list \<Rightarrow> real list \<Rightarrow> info \<Rightarrow> py_error + real)
       \<Rightarrow> env \<Rightarrow> real list \<Rightarrow> py_error + step_result" where
  "SawyerDoorEnv_step phys compute_reward self a =
     (case apply_action self a of
        Inl e \<Rightarrow> Inl e
      | Inr s1 \<Rightarrow>
          (let u = replicate 7 0;
               s2 = s1\<lparr>data := do_simulation phys u (frame_skip s1) (data s1)\<rparr>
           in case get_info s2 of
                Inl e \<Rightarrow> Inl e
              | Inr inf0 \<Rightarrow>
                  (case get_obs s2 of
                     Inl e \<Rightarrow> Inl e
                   | Inr ob \<Rightarrow>
                       (case dict_get ob (KStr ''achieved_goal'') of
                          Inl e \<Rightarrow> Inl e
                        | Inr ag \<Rightarrow>
                            (case dict_get ob (KStr ''desired_goal'') of
                               Inl e \<Rightarrow> Inl e
                             | Inr dg \<Rightarrow>
                                 (case compute_reward s2 ag dg inf0 of
                                    Inl e \<Rightarrow> Inl e
                                  | Inr reward \<Rightarrow>
                                      (let done = False
                                       in Inr (s2, ob, reward, done, inf0))))))))"

text \<open>The push-open-and-reach class. Its \<^verbatim>\<open>_compute_reward\<close> indexes its first argument with
  \<^verbatim>\<open>[-1]\<close> and \<^verbatim>\<open>[:3]\<close>; the argument is an array on the relabelling path
  (\<^verbatim>\<open>compute_her_reward_np\<close>) and the dictionary of \<^verbatim>\<open>_get_obs\<close> in \<^verbatim>\<open>step\<close>. On a dictionary
  \<^verbatim>\<open>[-1]\<close> is a lookup of the key -1 and \<^verbatim>\<open>[:3]\<close> raises, a slice being unhashable. A Python
  scalar is a one-element list.\<close>

datatype py_obs = ObsDict obs | ObsArray "real list"

definition getitem_last :: "py_obs \<Rightarrow> py_error + real list" where
  "getitem_last ob =
     (case ob of
        ObsDict d \<Rightarrow> dict_get d (KInt (- 1))
      | ObsArray xs \<Rightarrow>
          (if xs = [] then Inl (IndexError ''index -1 is out of bounds'') else Inr [last xs]))"

definition getitem_first3 :: "py_obs \<Rightarrow> py_error + real list" where
  "getitem_first3 ob =
     (case ob of
        ObsDict d \<Rightarrow> Inl (TypeError ''unhashable type: slice'')
      | ObsArray xs \<Rightarrow> Inr (take 3 xs))"

definition np_linalg_norm :: "real list \<Rightarrow> real" where
  "np_linalg_norm xs = sqrt (sum_list (map (\<lambda>x. x * x) xs))"

definition SawyerDoorPushOpenAndReachEnv_compute_reward ::
    "py_obs \<Rightarrow> real list \<Rightarrow> real list \<Rightarrow> py_error + (real list \<times> real \<times> real)" where
  "SawyerDoorPushOpenAndReachEnv_compute_reward ob goal action =
     (case getitem_last ob of
        Inl e \<Rightarrow> Inl e
      | Inr actual_angle \<Rightarrow>
          (case getitem_last (ObsArray goal) of
             Inl e \<Rightarrow> Inl e
           | Inr goal_angle0 \<Rightarrow>
               (case getitem_first3 ob of
                  Inl e \<Rightarrow> Inl e
                | Inr pos \<Rightarrow>
                    (let goal_pos0 = take 3 goal in
                     case np_sub actual_angle goal_angle0 of
                       Inl e \<Rightarrow> Inl e
                     | Inr da \<Rightarrow>
                         (case np_sub pos goal_pos0 of
                            Inl e \<Rightarrow> Inl e
                          | Inr dp \<Rightarrow>
                              Inr (np_abs da, np_linalg_norm action, np_linalg_norm dp))))))"

text \<open>\<^verbatim>\<open>SawyerDoorPushOpenAndReachEnv.get_goal\<close>: the three stored position components
  followed by the stored angle.\<close>

definition SawyerDoorPushOpenAndReachEnv_get_goal :: "env \<Rightarrow> py_error + real list" where
  "SawyerDoorPushOpenAndReachEnv_get_goal self =
     (if length (goal_pos self) < 3 then Inl (IndexError ''index out of range'')
      else (case goal_angle self of
              [g] \<Rightarrow> Inr [goal_pos self ! 0, goal_pos self ! 1, goal_pos self ! 2, g]
            | _ \<Rightarrow> Inl (ValueError ''setting an array element with a sequence'')))"

type_synonym reach_step_result = "env \<times> obs \<times> real list \<times> bool \<times> info"

definition SawyerDoorPushOpenAndReachEnv_step ::
    "physics \<Rightarrow> env \<Rightarrow> real list \<Rightarrow> py_error + reach_step_result" where
  "SawyerDoorPushOpenAndReachEnv_step phys self a0 =
     (let a = clip_action a0 in
      case mocap_set_action self (map (\<lambda>x. x * pos_action_scale self) (take 3 a)) of
        Inl e \<Rightarrow> Inl e
      | Inr s1 \<Rightarrow>
          (let u = replicate 7 0;
               s2 = s1\<lparr>data := do_simulation phys u (frame_skip s1) (data s1)\<rparr>
           in case get_obs s2 of
                Inl e \<Rightarrow> Inl e
              | Inr ob \<Rightarrow>
                  (case SawyerDoorPushOpenAndReachEnv_get_goal s2 of
                     Inl e \<Rightarrow> Inl e
                   | Inr goal \<Rightarrow>
                       (case SawyerDoorPushOpenAndReachEnv_compute_reward (ObsDict ob) goal a of
                          Inl e \<Rightarrow> Inl e
                        | Inr (angle_dist, action_penalty, pos_dist) \<Rightarrow>
                            (let reward = map (\<lambda>ad. - 1 * (ad * target_angle_scale s2
                                     + action_penalty * action_reward_scale s2
                                     + pos_dist * target_pos_scale s2)) angle_dist;
                                 done = False;
                                 inf0 = map_of
                                   [(''angle_difference'', angle_dist),
                                    (''distance'', [pos_dist]),
                                    (''total_distance'', map (\<lambda>ad. ad + pos_dist) angle_dist)]
                             in Inr (s2, ob, reward, done, inf0))))))"

text \<open>\<^verbatim>\<open>SawyerDoorEnv._compute_reward\<close>. \<^verbatim>\<open>convert_ob_to_goal\<close> is defined nowhere in the file and
  is a parameter; \<^verbatim>\<open>[0]\<close> takes the first entry of the absolute difference.\<close>

definition SawyerDoorEnv_compute_reward ::
    "('o \<Rightarrow> py_error + real list) \<Rightarrow> env \<Rightarrow> 'o \<Rightarrow> real list \<Rightarrow> real list \<Rightarrow> py_error + real" where
  "SawyerDoorEnv_compute_reward convert_ob_to_goal self ob goal action =
     (case convert_ob_to_goal ob of
        Inl e \<Rightarrow> Inl e
      | Inr actual_angle \<Rightarrow>
          (case np_sub actual_angle goal of
             Inl e \<Rightarrow> Inl e
           | Inr d \<Rightarrow>
               (case np_abs d of
                  [] \<Rightarrow> Inl (IndexError ''index 0 is out of bounds'')
                | x # _ \<Rightarrow> Inr (- x - np_linalg_norm action * action_reward_scale self))))"

text \<open>The \<open>done\<close> flag of a step result, when the step returned.\<close>

definition done_of :: "py_error + (env \<times> obs \<times> 'r \<times> bool \<times> info) \<Rightarrow> bool option" where
  "done_of res = (case res of Inl e \<Rightarrow> None | Inr (s, ob, r, d, i) \<Rightarrow> Some d)"

text \<open>A stand-in engine for running the operations on concrete inputs: one call of
  \<^verbatim>\<open>do_simulation\<close> brings the end effector onto its mocap target and leaves the joints
  alone; \<^verbatim>\<open>forward\<close> changes nothing. The stand-in single-sample reward is the negated sum
  of absolute differences.\<close>

definition example_physics :: physics where
  "example_physics =
     \<lparr> do_simulation = (\<lambda>u n d. d\<lparr>body_xpos := mocap_pos d, body_xquat := mocap_quat d\<rparr>),
       forward = (\<lambda>d. d) \<rparr>"

definition example_compute_reward :: "env \<Rightarrow> real list \<Rightarrow> real list \<Rightarrow> info \<Rightarrow> py_error + real" where
  "example_compute_reward self ag dg env_info =
     Inr (- sum_list (np_abs (map2 (\<lambda>x y. x - y) ag dg)))"

section \<open>Goals and reset\<close>

text \<open>\<^verbatim>\<open>SawyerDoorEnv.sample_goals\<close>. \<^verbatim>\<open>np.random.uniform(low, high, size=(batch_size, low.size))\<close>
  is the parameter \<open>uniform\<close>; \<^verbatim>\<open>np.repeat(self.fixed_goal.copy()[None], batch_size, 0)\<close> is
  \<open>batch_size\<close> rows, each the whole fixed goal.\<close>

definition sample_goals ::
    "(real list \<Rightarrow> real list \<Rightarrow> nat \<Rightarrow> real list list) \<Rightarrow> env \<Rightarrow> nat
       \<Rightarrow> (py_key \<rightharpoonup> real list list)" where
  "sample_goals uniform self batch_size =
     (let goals = (if fix_goal self then replicate batch_size (fixed_goal self)
                   else uniform (goal_space_low self) (goal_space_high self) batch_size)
      in map_of [(KStr ''desired_goal'', goals), (KStr ''state_desired_goal'', goals)])"

text \<open>Modelled from the spec: \<^verbatim>\<open>MultitaskEnv.sample_goal\<close> (module
  \<^verbatim>\<open>multiworld.core.multitask_env\<close>) is missing from the sources. The spec gives
  \<^verbatim>\<open>sample_goals(n)\<close> as a batch of \<open>n\<close> goals; the single goal is taken to be row 0 of a batch
  of one, under each of the two keys.\<close>

definition sample_goal ::
    "(real list \<Rightarrow> real list \<Rightarrow> nat \<Rightarrow> real list list) \<Rightarrow> env
       \<Rightarrow> py_error + (py_key \<rightharpoonup> real list)" where
  "sample_goal uniform self =
     (let goals = sample_goals uniform self 1 in
      case dict_get goals (KStr ''desired_goal'') of
        Inl e \<Rightarrow> Inl e
      | Inr dgs \<Rightarrow>
          (case dict_get goals (KStr ''state_desired_goal'') of
             Inl e \<Rightarrow> Inl e
           | Inr sdgs \<Rightarrow>
               (case dgs of
                  [] \<Rightarrow> Inl (IndexError ''index 0 is out of bounds'')
                | dg # _ \<Rightarrow>
                    (case sdgs of
                       [] \<Rightarrow> Inl (IndexError ''index 0 is out of bounds'')
                     | sdg # _ \<Rightarrow>
                         Inr (map_of [(KStr ''desired_goal'', dg),
                                      (KStr ''state_desired_goal'', sdg)])))))"

text \<open>Modelled from the spec: \<^verbatim>\<open>MujocoEnv.set_state\<close> (module
  \<^verbatim>\<open>multiworld.envs.mujoco.mujoco_env\<close>) is missing from the sources. Per the spec's engine
  boundary it sets the joint positions and velocities; the derived quantities are then
  recomputed by the engine's \<^verbatim>\<open>forward\<close>.\<close>

definition set_state :: "physics \<Rightarrow> sim_data \<Rightarrow> real list \<Rightarrow> real list \<Rightarrow> sim_data" where
  "set_state phys d qp qv = forward phys (d\<lparr>qpos := qp, qvel := qv\<rparr>)"

text \<open>\<^verbatim>\<open>SawyerDoorEnv.reset\<close>. The slice assignment \<^verbatim>\<open>angles[:] = self.init_angles\<close> needs as many
  joints as there are initial angles.\<close>

definition reset ::
    "physics \<Rightarrow> (real list \<Rightarrow> real list \<Rightarrow> nat \<Rightarrow> real list list) \<Rightarrow> env \<Rightarrow> bool
       \<Rightarrow> py_error + (env \<times> obs)" where
  "reset phys uniform self resample_on_reset =
     (if length (qpos (data self)) \<noteq> length init_angles
      then Inl (ValueError ''could not broadcast input array'')
      else
        (let angles = init_angles;
             velocities = replicate (length (qvel (data self))) 0;
             s1 = self\<lparr>data := set_state phys (data self) angles velocities\<rparr>
         in if resample_on_reset then
              (case sample_goal uniform s1 of
                 Inl e \<Rightarrow> Inl e
               | Inr goal \<Rightarrow>
                   (case dict_get goal (KStr ''state_desired_goal'') of
                      Inl e \<Rightarrow> Inl e
                    | Inr g \<Rightarrow>
                        (let s2 = s1\<lparr>goal_angle := g\<rparr>
                         in case get_obs s2 of
                              Inl e \<Rightarrow> Inl e
                            | Inr ob \<Rightarrow> Inr (s2, ob))))
            else
              (case get_obs s1 of
                 Inl e \<Rightarrow> Inl e
               | Inr ob \<Rightarrow> Inr (s1, ob))))"



definition no_uniform :: "real list \<Rightarrow> real list \<Rightarrow> nat \<Rightarrow> real list list" where
  "no_uniform lo hi n = replicate n lo"

section \<open>Module evaluation and construction\<close>

text \<open>The names bound by the import statements at the top of the module, in order.\<close>

definition module_imports :: "string list" where
  "module_imports =
     [''abc'', ''OrderedDict'', ''mujoco_py'', ''np'', ''sys'', ''MujocoEnv'', ''Box'',
      ''Serializable'', ''get_stat_in_paths'', ''create_stats_ordered_dict'',
      ''get_asset_full_path'', ''MultitaskEnv'', ''PolicyWrappedWithExplorationStrategy'',
      ''EpsilonGreedy'', ''OUStrategy'', ''ZeroPolicy'']"

text \<open>A class statement: the class name and the global names that are evaluated while the
  statement runs, in order (the base classes, the metaclass, and the default-argument
  expressions of the methods). Builtins such as \<^verbatim>\<open>property\<close> and \<^verbatim>\<open>None\<close> always resolve and are
  left out; neither \<^verbatim>\<open>logger\<close> nor \<^verbatim>\<open>Dict\<close> is a builtin.\<close>

datatype class_stmt = ClassDef string "string list"

fun class_name :: "class_stmt \<Rightarrow> string" where
  "class_name (ClassDef c refs) = c"

definition module_body :: "class_stmt list" where
  "module_body =
     [ClassDef ''SawyerDoorEnv'' [''MultitaskEnv'', ''MujocoEnv'', ''Serializable'', ''abc''],
      ClassDef ''SawyerDoorPushOpenEnv'' [''SawyerDoorEnv''],
      ClassDef ''SawyerDoorPushOpenActionLimitedEnv'' [''SawyerDoorPushOpenEnv''],
      ClassDef ''SawyerDoorPushOpenAndReachEnv'' [''SawyerDoorPushOpenEnv'', ''logger''],
      ClassDef ''SawyerDoorPullOpenEnv'' [''SawyerDoorEnv'']]"

text \<open>Running the class statements against a namespace: the first name that is not bound
  raises \<^verbatim>\<open>NameError\<close> and ends the module; otherwise the class name is bound.\<close>

fun exec_class_stmts :: "string list \<Rightarrow> class_stmt list \<Rightarrow> py_error + string list" where
  "exec_class_stmts ns [] = Inr ns"
| "exec_class_stmts ns (ClassDef c refs # rest) =
     (case find (\<lambda>n. n \<notin> set ns) refs of
        Some n \<Rightarrow> Inl (NameError n)
      | None \<Rightarrow> exec_class_stmts (ns @ [c]) rest)"

definition import_module :: "py_error + string list" where
  "import_module = exec_class_stmts module_imports module_body"

text \<open>Every global name the module binds anywhere, and the lookup of a global at run time.\<close>

definition module_names :: "string list" where
  "module_names = module_imports @ map class_name module_body"

definition lookup_global :: "string \<Rightarrow> py_error + unit" where
  "lookup_global n = (if n \<in> set module_names then Inr () else Inl (NameError n))"

text \<open>The keyword parameters of \<^verbatim>\<open>SawyerDoorEnv.__init__\<close> and their values after defaults.\<close>

definition SawyerDoorEnv_init_params :: "string list" where
  "SawyerDoorEnv_init_params =
     [''frame_skip'', ''goal_low'', ''goal_high'', ''pos_action_scale'',
      ''action_reward_scale'', ''reward_type'', ''indicator_threshold'', ''fix_goal'',
      ''fixed_goal'']"

record config =
  cfg_frame_skip :: nat
  cfg_goal_low :: real
  cfg_goal_high :: real
  cfg_pos_action_scale :: real
  cfg_action_reward_scale :: real
  cfg_reward_type :: string
  cfg_indicator_threshold :: real
  cfg_fix_goal :: bool
  cfg_fixed_goal :: "real list"
  cfg_max_x_pos :: real
  cfg_max_y_pos :: real

text \<open>\<^verbatim>\<open>SawyerDoorEnv.__init__\<close>, called with the keyword names \<open>kw\<close>. Binding a keyword the
  signature does not have raises \<^verbatim>\<open>TypeError\<close>; \<open>mujoco\<close> is the outcome of the base-class
  initialisers (\<^verbatim>\<open>quick_init\<close>, \<^verbatim>\<open>MultitaskEnv.__init__\<close>, \<^verbatim>\<open>MujocoEnv.__init__\<close>), which load the
  scene; then the attributes are assigned and \<^verbatim>\<open>Dict\<close> is looked up for the observation space;
  \<^verbatim>\<open>reset()\<close> and \<^verbatim>\<open>reset_mocap_welds()\<close> come last. Attributes that \<^verbatim>\<open>__init__\<close> does not assign
  start empty or zero.\<close>

definition SawyerDoorEnv_init ::
    "physics \<Rightarrow> (real list \<Rightarrow> real list \<Rightarrow> nat \<Rightarrow> real list list) \<Rightarrow> (py_error + sim_data)
       \<Rightarrow> variant \<Rightarrow> string list \<Rightarrow> config \<Rightarrow> py_error + env" where
  "SawyerDoorEnv_init phys uniform mujoco c kw cfg =
     (case find (\<lambda>k. k \<notin> set SawyerDoorEnv_init_params) kw of
        Some k \<Rightarrow> Inl (TypeError k)
      | None \<Rightarrow>
          (case mujoco of
             Inl e \<Rightarrow> Inl e
           | Inr d \<Rightarrow>
               (let self = \<lparr> cls = c, data = d, frame_skip = cfg_frame_skip cfg,
                      reward_type = cfg_reward_type cfg,
                      indicator_threshold = cfg_indicator_threshold cfg,
                      fix_goal = cfg_fix_goal cfg, fixed_goal = cfg_fixed_goal cfg,
                      goal_space_low = [cfg_goal_low cfg],
                      goal_space_high = [cfg_goal_high cfg],
                      pos_action_scale = cfg_pos_action_scale cfg,
                      action_reward_scale = cfg_action_reward_scale cfg,
                      goal_angle = [], goal_pos = [],
                      max_x_pos = cfg_max_x_pos cfg, max_y_pos = cfg_max_y_pos cfg,
                      min_y_pos = 0.5, target_pos_scale = 0, target_angle_scale = 0 \<rparr>
                in case lookup_global ''Dict'' of
                     Inl e \<Rightarrow> Inl e
                   | Inr _ \<Rightarrow>
                       (case reset phys uniform self True of
                          Inl e \<Rightarrow> Inl e
                        | Inr (s, ob) \<Rightarrow> Inr (s\<lparr>data := forward phys (data s)\<rparr>)))))"

text \<open>The subclasses capture their own keywords and forward the rest together with
  \<^verbatim>\<open>min_angle\<close> and \<^verbatim>\<open>max_angle\<close>.\<close>

definition SawyerDoorPushOpenEnv_init ::
    "physics \<Rightarrow> (real list \<Rightarrow> real list \<Rightarrow> nat \<Rightarrow> real list list) \<Rightarrow> (py_error + sim_data)
       \<Rightarrow> variant \<Rightarrow> string list \<Rightarrow> config \<Rightarrow> py_error + env" where
  "SawyerDoorPushOpenEnv_init phys uniform mujoco c kw cfg =
     (let kwargs = filter (\<lambda>k. k \<notin> set [''min_angle'', ''max_angle'']) kw
      in SawyerDoorEnv_init phys uniform mujoco c
           ([''min_angle'', ''max_angle''] @ kwargs) cfg)"

definition SawyerDoorPushOpenActionLimitedEnv_init ::
    "physics \<Rightarrow> (real list \<Rightarrow> real list \<Rightarrow> nat \<Rightarrow> real list list) \<Rightarrow> (py_error + sim_data)
       \<Rightarrow> string list \<Rightarrow> config \<Rightarrow> py_error + env" where
  "SawyerDoorPushOpenActionLimitedEnv_init phys uniform mujoco kw cfg =
     (let kwargs = filter (\<lambda>k. k \<notin> set [''max_x_pos'', ''max_y_pos'']) kw
      in SawyerDoorPushOpenEnv_init phys uniform mujoco SawyerDoorPushOpenActionLimitedEnv
           kwargs cfg)"

definition SawyerDoorPullOpenEnv_init ::
    "physics \<Rightarrow> (real list \<Rightarrow> real list \<Rightarrow> nat \<Rightarrow> real list list) \<Rightarrow> (py_error + sim_data)
       \<Rightarrow> string list \<Rightarrow> config \<Rightarrow> py_error + env" where
  "SawyerDoorPullOpenEnv_init phys uniform mujoco kw cfg =
     (let kwargs = filter (\<lambda>k. k \<notin> set [''min_angle'', ''max_angle'']) kw
      in SawyerDoorEnv_init phys uniform mujoco SawyerDoorPullOpenEnv
           ([''min_angle'', ''max_angle''] @ kwargs) cfg)"

text \<open>The keyword defaults of the constructors.\<close>

definition default_config :: config where
  "default_config = \<lparr> cfg_frame_skip = 30, cfg_goal_low = - 1.5708, cfg_goal_high = 1.5708,
     cfg_pos_action_scale = 1 / 100, cfg_action_reward_scale = 0,
     cfg_reward_type = ''angle_difference'', cfg_indicator_threshold = 0.02,
     cfg_fix_goal = False, cfg_fixed_goal = [0.15, 0.6, 0.3],
     cfg_max_x_pos = 0.1, cfg_max_y_pos = 0.7 \<rparr>"

section \<open>Saving and restoring the environment state\<close>

text \<open>\<^verbatim>\<open>get_env_state\<close> packs the joint state of \<^verbatim>\<open>sim.get_state()\<close>, the mocap pose and the goal
  angle; \<^verbatim>\<open>set_env_state\<close> writes them back and calls the engine's \<^verbatim>\<open>forward\<close>.\<close>

type_synonym env_state = "((real list \<times> real list) \<times> (vec3 \<times> quat)) \<times> real list"

definition get_env_state :: "env \<Rightarrow> env_state" where
  "get_env_state self =
     (let joint_state = (qpos (data self), qvel (data self));
          mocap_state = (mocap_pos (data self), mocap_quat (data self));
          base_state = (joint_state, mocap_state);
          goal = goal_angle self
      in (base_state, goal))"

definition set_env_state :: "physics \<Rightarrow> env \<Rightarrow> env_state \<Rightarrow> env" where
  "set_env_state phys self state =
     (case state of ((joint_state, mocap_state), goal) \<Rightarrow>
        (case joint_state of (qp, qv) \<Rightarrow>
           (case mocap_state of (mp, mq) \<Rightarrow>
              self\<lparr>data := forward phys ((data self)\<lparr>qpos := qp, qvel := qv,
                                                     mocap_pos := mp, mocap_quat := mq\<rparr>),
                   goal_angle := goal\<rparr>)))"

section \<open>Properties of the batch reward\<close>

lemma np_sub_same_length:
  "length xs = length ys \<Longrightarrow> np_sub xs ys = Inr (map2 (\<lambda>x y. x - y) xs ys)"
  by (simp add: np_sub_def np_binop_def)

lemma np_sub_broadcastable:
  "np_broadcastable xs ys \<Longrightarrow> \<exists>d. np_sub xs ys = Inr d"
  by (auto simp: np_broadcastable_def np_sub_def np_binop_def)

text \<open>Claim C4. For a \<^verbatim>\<open>reward_type\<close> other than \<^verbatim>\<open>'angle_difference'\<close> and
  \<^verbatim>\<open>'hand_success'\<close>, \<^verbatim>\<open>compute_rewards\<close> never returns a reward array: on every pair of
  batches it raises, and on every pair of batches whose shapes NumPy can combine it raises
  \<^verbatim>\<open>NotImplementedError("Invalid/no reward type.")\<close>.\<close>

theorem compute_rewards_unsupported:
  assumes "reward_type self \<noteq> ''angle_difference''"
    and "reward_type self \<noteq> ''hand_success''"
  shows "isl (compute_rewards self achieved desired env_info)
       \<and> (np_broadcastable achieved desired \<longrightarrow>
            compute_rewards self achieved desired env_info
              = Inl (NotImplementedError ''Invalid/no reward type.''))"
proof -
  have "isl (compute_rewards self achieved desired env_info)"
    using assms by (simp add: compute_rewards_def Let_def split: sum.splits)
  moreover have "compute_rewards self achieved desired env_info
      = Inl (NotImplementedError ''Invalid/no reward type.'')"
    if "np_broadcastable achieved desired"
  proof -
    from np_sub_broadcastable [OF that] obtain d where "np_sub achieved desired = Inr d" ..
    then show ?thesis using assms by (simp add: compute_rewards_def Let_def)
  qed
  ultimately show ?thesis by blast
qed

theorem compute_rewards_unsupported_witness:
  "reward_type (example_env\<lparr>reward_type := ''bogus''\<rparr>) \<noteq> ''angle_difference''
   \<and> reward_type (example_env\<lparr>reward_type := ''bogus''\<rparr>) \<noteq> ''hand_success''
   \<and> np_broadcastable [0] [0.025]
   \<and> compute_rewards (example_env\<lparr>reward_type := ''bogus''\<rparr>) [0] [0.025] Map.empty
       = Inl (NotImplementedError ''Invalid/no reward type.'')"
  using compute_rewards_unsupported
    [of "example_env\<lparr>reward_type := ''bogus''\<rparr>" "[0]" "[0.025]" Map.empty]
  by (simp add: np_broadcastable_def)

text \<open>Claim C5. Under \<^verbatim>\<open>reward_type = 'angle_difference'\<close> the batch reward is the
  element-wise negated absolute difference, and swapping the two batches gives the same
  result (also the same error when the shapes cannot be combined).\<close>

theorem compute_rewards_angle_difference:
  assumes "reward_type self = ''angle_difference''"
  shows "compute_rewards self a b env_info = compute_rewards self b a env_info
       \<and> (length a = length b \<longrightarrow>
            compute_rewards self a b env_info = Inr (map2 (\<lambda>x y. - \<bar>x - y\<bar>) a b))"
proof -
  have eq: "compute_rewards self xs ys env_info = Inr (map2 (\<lambda>x y. - \<bar>x - y\<bar>) xs ys)"
    if "length xs = length ys" for xs ys
    using assms that
    by (simp add: compute_rewards_def np_sub_same_length np_abs_def Let_def
        map_zip_map2 split_def o_def)
  have sym_zip: "map2 (\<lambda>x y. - \<bar>x - y\<bar>) xs ys = map2 (\<lambda>x y. - \<bar>x - y\<bar>) ys xs"
    if "length xs = length ys" for xs ys :: "real list"
    using that by (induction xs ys rule: list_induct2) (simp_all add: abs_minus_commute)
  have bc: "compute_rewards self xs ys env_info = compute_rewards self ys xs env_info"
    if "length xs = 1" "length ys \<noteq> 1" for xs ys
    using assms that
    by (simp add: compute_rewards_def np_sub_def np_binop_def np_abs_def Let_def
        o_def abs_minus_commute)
  show ?thesis
  proof (cases "length a = length b")
    case True
    then show ?thesis using eq [of a b] eq [of b a] sym_zip [of a b] by simp
  next
    case False
    show ?thesis
    proof (cases "length a = 1")
      case True
      with False bc [of a b] show ?thesis by simp
    next
      case na: False
      show ?thesis
      proof (cases "length b = 1")
        case True
        with na bc [of b a] \<open>length a \<noteq> length b\<close> show ?thesis by simp
      next
        case nb: False
        with na \<open>length a \<noteq> length b\<close> assms show ?thesis
          by (simp add: compute_rewards_def np_sub_def np_binop_def)
      qed
    qed
  qed
qed

theorem compute_rewards_angle_difference_witness:
  "reward_type example_env = ''angle_difference''
   \<and> compute_rewards example_env [0, 0.5] [0.025, 0.1] Map.empty
       = compute_rewards example_env [0.025, 0.1] [0, 0.5] Map.empty
   \<and> compute_rewards example_env [0, 0.5] [0.025, 0.1] Map.empty = Inr [- 0.025, - 0.4]"
proof -
  have h: "reward_type example_env = ''angle_difference''"
    by (simp add: example_env_def)
  note r = compute_rewards_angle_difference [OF h, of "[0, 0.5]" "[0.025, 0.1]" Map.empty]
  from r have c1: "compute_rewards example_env [0, 0.5] [0.025, 0.1] Map.empty
          = compute_rewards example_env [0.025, 0.1] [0, 0.5] Map.empty"
    by (rule conjunct1)
  from r have "length [0, 0.5 :: real] = length [0.025, 0.1 :: real] \<longrightarrow>
      compute_rewards example_env [0, 0.5] [0.025, 0.1] Map.empty
        = Inr (map2 (\<lambda>x y. - \<bar>x - y\<bar>) [0, 0.5] [0.025, 0.1])"
    by (rule conjunct2)
  then have c2: "compute_rewards example_env [0, 0.5] [0.025, 0.1] Map.empty
      = Inr [- 0.025, - 0.4]"
    by simp
  from h c1 c2 show ?thesis by blast
qed

text \<open>Claim C2. Under \<^verbatim>\<open>reward_type = 'hand_success'\<close> with threshold 0.02 the code negates
  the indicator of \<open>|achieved - desired| < threshold\<close>: a difference of 0.025 (outside the
  threshold) is rewarded 0 and a difference of 0.01 (inside) is rewarded -1, the reverse of
  the stated values.\<close>

theorem compute_rewards_hand_success_inverted:
  "compute_rewards (example_env\<lparr>reward_type := ''hand_success'', indicator_threshold := 0.02\<rparr>)
       [0] [0.025] Map.empty = Inr [0]
   \<and> compute_rewards (example_env\<lparr>reward_type := ''hand_success'', indicator_threshold := 0.02\<rparr>)
       [0] [0.01] Map.empty = Inr [- 1]"
  by (simp add: compute_rewards_def np_sub_def np_binop_def np_abs_def)

section \<open>Properties of the action mapper\<close>




lemma length_pos_delta: "length (pos_delta self a) = min (length a) 3"
  by (simp add: pos_delta_def clip_action_def)

lemma length3_cases: "length xs = 3 \<Longrightarrow> \<exists>a b c. xs = [a, b, c]"
  by (auto simp: numeral_3_eq_3 length_Suc_conv)

lemma add_pos_delta_3:
  "add_pos_delta (x, y, z) [dx, dy, dz] = Inr (x + dx, y + dy, z + dz)"
  by (simp add: add_pos_delta_def)





lemma mocap_set_action_returns:
  assumes "length action = 3"
  shows "\<exists>s'. mocap_set_action self action = Inr s' \<and> qpos (data s') = qpos (data self)"
proof -
  from length3_cases [OF assms] obtain dx dy dz where d: "action = [dx, dy, dz]" by blast
  obtain x y z where p: "body_xpos (data self) = (x, y, z)"
    by (cases "body_xpos (data self)")
  show ?thesis
    by (cases "cls self")
      (simp_all add: mocap_set_action_def SawyerDoorEnv_mocap_set_action_def
        SawyerDoorPushOpenEnv_mocap_set_action_def
        SawyerDoorPushOpenActionLimitedEnv_mocap_set_action_def
        SawyerDoorPullOpenEnv_mocap_set_action_def reset_mocap2body_xpos_def
        d p add_pos_delta_3)
qed

text \<open>Claim C7. Whatever the class and the action, a call of \<^verbatim>\<open>mocap_set_action\<close> that
  returns leaves the mocap target at height 0.06 with orientation (1, 0, 1, 0); it returns
  for every three-component displacement.\<close>

theorem mocap_set_action_height_and_orientation:
  "(\<forall>s'. mocap_set_action self action = Inr s' \<longrightarrow>
       snd (snd (mocap_pos (data s'))) = 0.06 \<and> mocap_quat (data s') = (1, 0, 1, 0))
   \<and> (length action = 3 \<longrightarrow> \<not> isl (mocap_set_action self action))"
proof -
  have "snd (snd (mocap_pos (data s'))) = 0.06 \<and> mocap_quat (data s') = (1, 0, 1, 0)"
    if "mocap_set_action self action = Inr s'" for s'
    using that
    by (cases "cls self")
      (auto simp: mocap_set_action_def SawyerDoorEnv_mocap_set_action_def
        SawyerDoorPushOpenEnv_mocap_set_action_def
        SawyerDoorPushOpenActionLimitedEnv_mocap_set_action_def
        SawyerDoorPullOpenEnv_mocap_set_action_def np_clip_def Let_def
        split: sum.splits prod.splits)
  moreover have "\<not> isl (mocap_set_action self action)" if "length action = 3"
    using mocap_set_action_returns [OF that, of self] by auto
  ultimately show ?thesis by blast
qed

theorem mocap_set_action_height_and_orientation_witness:
  "length [0.01, - 0.005, 5 :: real] = 3
   \<and> \<not> isl (mocap_set_action example_env [0.01, - 0.005, 5])
   \<and> mocap_set_action example_env [0.01, - 0.005, 5]
       = Inr (example_env\<lparr>data := example_data\<lparr>mocap_pos := (0.01, 0.595, 0.06)\<rparr>\<rparr>)
   \<and> snd (snd (mocap_pos (data
         (example_env\<lparr>data := example_data\<lparr>mocap_pos := (0.01, 0.595, 0.06)\<rparr>\<rparr>)))) = 0.06
   \<and> mocap_quat (data
         (example_env\<lparr>data := example_data\<lparr>mocap_pos := (0.01, 0.595, 0.06)\<rparr>\<rparr>)) = (1, 0, 1, 0)"
proof -
  let ?act = "[0.01, - 0.005, 5 :: real]"
  let ?s = "example_env\<lparr>data := example_data\<lparr>mocap_pos := (0.01, 0.595, 0.06)\<rparr>\<rparr>"
  have len: "length ?act = 3" by simp
  have run: "mocap_set_action example_env ?act = Inr ?s"
    by (simp add: mocap_set_action_def SawyerDoorPushOpenEnv_mocap_set_action_def
        reset_mocap2body_xpos_def add_pos_delta_def np_clip_def example_env_def
        example_data_def)
  note t = mocap_set_action_height_and_orientation [of example_env ?act]
  from t len have r: "\<not> isl (mocap_set_action example_env ?act)" by blast
  from t run have "snd (snd (mocap_pos (data ?s))) = 0.06 \<and> mocap_quat (data ?s) = (1, 0, 1, 0)"
    by blast
  with len r run show ?thesis by blast
qed

section \<open>Properties of stepping\<close>

lemma get_obs_no_int_key: "get_obs self = Inr ob \<Longrightarrow> ob (KInt k) = None"
  by (auto simp: get_obs_def Let_def split: sum.splits)

lemma reach_compute_reward_on_dict:
  assumes "get_obs s = Inr ob"
  shows "SawyerDoorPushOpenAndReachEnv_compute_reward (ObsDict ob) goal a
           = Inl (KeyError (KInt (- 1)))"
proof -
  from get_obs_no_int_key [OF assms] have "ob (KInt (- 1)) = None" .
  then show ?thesis
    by (simp add: SawyerDoorPushOpenAndReachEnv_compute_reward_def getitem_last_def dict_get_def)
qed

lemma reach_step_raises: "isl (SawyerDoorPushOpenAndReachEnv_step phys self a)"
  by (auto simp: SawyerDoorPushOpenAndReachEnv_step_def Let_def reach_compute_reward_on_dict
      split: sum.splits)

lemma base_step_done:
  "SawyerDoorEnv_step phys cr self a = Inr (s, ob, r, d, i) \<Longrightarrow> d = False"
  by (auto simp: SawyerDoorEnv_step_def Let_def split: sum.splits)

lemma base_step_returns:
  assumes len: "length a = 4"
    and q: "qpos (data self) \<noteq> []"
    and joints: "\<forall>u n d. length (qpos (do_simulation phys u n d)) = length (qpos d)"
    and cr: "\<forall>s ag dg i. \<not> isl (cr s ag dg i)"
  shows "done_of (SawyerDoorEnv_step phys cr self a) = Some False"
proof -
  have "length (pos_delta self a) = 3"
    using len by (simp add: length_pos_delta)
  from mocap_set_action_returns [OF this, of self]
  obtain s1 where s1: "apply_action self a = Inr s1"
    and "qpos (data s1) = qpos (data self)"
    by (auto simp: apply_action_def)
  with q joints
  have "qpos (do_simulation phys (replicate 7 0) (frame_skip s1) (data s1)) \<noteq> []"
    by (metis length_0_conv)
  then obtain x xs where
    qs: "qpos (do_simulation phys (replicate 7 0) (frame_skip s1) (data s1)) = x # xs"
    by (cases "qpos (do_simulation phys (replicate 7 0) (frame_skip s1) (data s1))") auto
  let ?s2 = "s1\<lparr>data := do_simulation phys (replicate 7 0) (frame_skip s1) (data s1)\<rparr>"
  have ang: "get_door_angle ?s2 = Inr [x]"
    by (simp add: get_door_angle_def qs)
  have "\<exists>d. np_sub [x] (goal_angle ?s2) = Inr d"
    by (rule np_sub_broadcastable) (simp add: np_broadcastable_def)
  then obtain i0 where inf0: "get_info ?s2 = Inr i0"
    by (auto simp: get_info_def ang Let_def)
  obtain ob where ob: "get_obs ?s2 = Inr ob"
    and ag: "dict_get ob (KStr ''achieved_goal'') = Inr [x]"
    and dg: "dict_get ob (KStr ''desired_goal'') = Inr (goal_angle s1)"
    by (simp add: get_obs_def ang Let_def dict_get_def)
  from cr obtain r where r: "cr ?s2 [x] (goal_angle s1) i0 = Inr r"
    by (metis isl_def sum.exhaust_sel sum.collapse(2))
  show ?thesis
    by (simp add: SawyerDoorEnv_step_def s1 Let_def inf0 ob ag dg r done_of_def)
qed

text \<open>Claim C9. The base-class \<^verbatim>\<open>step\<close> returns \<open>done = False\<close>, here for the action
  (0, 1, 0, 0) on the example instance. The \<^verbatim>\<open>step\<close> of the push-open-and-reach class does not
  return at all on the same action: it hands the dictionary of \<^verbatim>\<open>_get_obs\<close> to
  \<^verbatim>\<open>_compute_reward\<close>, whose \<^verbatim>\<open>obs[-1]\<close> raises \<^verbatim>\<open>KeyError\<close> before \<^verbatim>\<open>done = False\<close> is reached.\<close>

theorem reach_step_raises_key_error:
  "SawyerDoorPushOpenAndReachEnv_step example_physics
       (example_env\<lparr>cls := SawyerDoorPushOpenAndReachEnv\<rparr>) [0, 1, 0, 0]
     = Inl (KeyError (KInt (- 1)))
   \<and> done_of (SawyerDoorPushOpenAndReachEnv_step example_physics
       (example_env\<lparr>cls := SawyerDoorPushOpenAndReachEnv\<rparr>) [0, 1, 0, 0]) = None
   \<and> done_of (SawyerDoorEnv_step example_physics example_compute_reward example_env
       [0, 1, 0, 0]) = Some False"
proof -
  let ?r = "example_env\<lparr>cls := SawyerDoorPushOpenAndReachEnv\<rparr>"
  have run: "SawyerDoorPushOpenAndReachEnv_step example_physics ?r [0, 1, 0, 0]
      = Inl (KeyError (KInt (- 1)))"
    by (simp add: SawyerDoorPushOpenAndReachEnv_step_def Let_def mocap_set_action_def
        SawyerDoorPushOpenEnv_mocap_set_action_def reset_mocap2body_xpos_def
        add_pos_delta_def np_clip_def clip_action_def get_obs_def get_door_angle_def
        SawyerDoorPushOpenAndReachEnv_get_goal_def
        SawyerDoorPushOpenAndReachEnv_compute_reward_def getitem_last_def dict_get_def
        example_env_def example_data_def example_physics_def init_angles_def)
  have h1: "length [0, 1, 0, 0 :: real] = 4" by simp
  have h2: "qpos (data example_env) \<noteq> []"
    by (simp add: example_env_def example_data_def init_angles_def)
  have h3: "\<forall>u n d. length (qpos (do_simulation example_physics u n d)) = length (qpos d)"
    by (simp add: example_physics_def)
  have h4: "\<forall>s ag dg i. \<not> isl (example_compute_reward s ag dg i)"
    by (simp add: example_compute_reward_def)
  have base: "done_of (SawyerDoorEnv_step example_physics example_compute_reward example_env
       [0, 1, 0, 0]) = Some False"
    by (rule base_step_returns [OF h1 h2 h3 h4])
  from run base show ?thesis by (simp add: done_of_def)
qed

section \<open>Properties of the single-sample reward\<close>

text \<open>Claim C8. \<^verbatim>\<open>SawyerDoorEnv._compute_reward\<close> does not depend on \<^verbatim>\<open>reward_type\<close>: changing
  that attribute never changes the result, and for a one-element angle and goal the result
  is \<open>-|angle - goal| - action_reward_scale * ||action||\<close>. Under \<^verbatim>\<open>'hand_success'\<close> this
  differs from the batch path, which returns 0 where the single-sample path returns -0.025.\<close>

theorem compute_reward_ignores_reward_type:
  "SawyerDoorEnv_compute_reward conv (self\<lparr>reward_type := rt\<rparr>) ob goal action
     = SawyerDoorEnv_compute_reward conv self ob goal action
   \<and> (conv ob = Inr [angle] \<longrightarrow>
        SawyerDoorEnv_compute_reward conv self ob [g] action
          = Inr (- \<bar>angle - g\<bar> - action_reward_scale self * np_linalg_norm action))
   \<and> SawyerDoorEnv_compute_reward Inr (example_env\<lparr>reward_type := ''hand_success''\<rparr>)
        [0] [0.025] [] = Inr (- 0.025)
   \<and> compute_rewards (example_env\<lparr>reward_type := ''hand_success''\<rparr>)
        [0] [0.025] Map.empty = Inr [0]"
proof -
  have "SawyerDoorEnv_compute_reward conv (self\<lparr>reward_type := rt\<rparr>) ob goal action
     = SawyerDoorEnv_compute_reward conv self ob goal action"
    by (simp add: SawyerDoorEnv_compute_reward_def split: sum.splits list.splits)
  moreover have "SawyerDoorEnv_compute_reward conv self ob [g] action
          = Inr (- \<bar>angle - g\<bar> - action_reward_scale self * np_linalg_norm action)"
    if "conv ob = Inr [angle]"
    using that
    by (simp add: SawyerDoorEnv_compute_reward_def np_sub_def np_binop_def np_abs_def)
  moreover have "SawyerDoorEnv_compute_reward Inr
      (example_env\<lparr>reward_type := ''hand_success''\<rparr>) [0] [0.025] [] = Inr (- 0.025)"
    by (simp add: SawyerDoorEnv_compute_reward_def np_sub_def np_binop_def np_abs_def
        np_linalg_norm_def example_env_def)
  moreover have "compute_rewards (example_env\<lparr>reward_type := ''hand_success''\<rparr>)
        [0] [0.025] Map.empty = Inr [0]"
    by (simp add: compute_rewards_def np_sub_def np_binop_def np_abs_def example_env_def)
  ultimately show ?thesis by blast
qed

theorem compute_reward_ignores_reward_type_witness:
  "Inr [0.1] = (Inr [0.1 :: real] :: py_error + real list)
   \<and> SawyerDoorEnv_compute_reward Inr example_env [0.1] [0.3] [] = Inr (- 0.2)"
proof -
  have h: "(Inr :: real list \<Rightarrow> py_error + real list) [0.1] = Inr [0.1]" by simp
  have n: "action_reward_scale example_env * np_linalg_norm [] = 0"
    by (simp add: example_env_def)
  from compute_reward_ignores_reward_type
    [where conv = Inr and self = example_env and ob = "[0.1]" and angle = "0.1"
      and g = "0.3" and action = "[]"] h
  have "SawyerDoorEnv_compute_reward Inr example_env [0.1] [0.3] []
      = Inr (- \<bar>0.1 - 0.3\<bar> - action_reward_scale example_env * np_linalg_norm [])"
    by blast
  then show ?thesis unfolding n by simp
qed

section \<open>Properties of reset with a fixed goal\<close>






section \<open>Properties of module evaluation and construction\<close>

lemma lookup_Dict: "lookup_global ''Dict'' = Inl (NameError ''Dict'')"
  by (simp add: lookup_global_def module_names_def module_imports_def module_body_def)

lemma base_init_raises: "isl (SawyerDoorEnv_init phys uniform mujoco c kw cfg)"
  by (simp add: SawyerDoorEnv_init_def lookup_Dict Let_def split: option.splits sum.splits)

lemma base_init_min_angle:
  "SawyerDoorEnv_init phys uniform mujoco c (''min_angle'' # kw) cfg
     = Inl (TypeError ''min_angle'')"
  by (simp add: SawyerDoorEnv_init_def SawyerDoorEnv_init_params_def)

text \<open>Claim C1. Evaluating the module stops with \<^verbatim>\<open>NameError\<close> for \<^verbatim>\<open>logger\<close> at the class
  statement of the push-open-and-reach class. Taken by themselves, the constructors fail for
  every configuration as well: the base \<^verbatim>\<open>__init__\<close> always raises, with \<^verbatim>\<open>NameError\<close> for
  \<^verbatim>\<open>Dict\<close> whenever its keywords are accepted and the scene loads, and the push-open,
  action-limited and pull-open constructors raise \<^verbatim>\<open>TypeError\<close> for the forwarded
  \<^verbatim>\<open>min_angle\<close>.\<close>

theorem construction_always_raises:
  "import_module = Inl (NameError ''logger'')
   \<and> isl (SawyerDoorEnv_init phys uniform mujoco c kw cfg)
   \<and> (list_all (\<lambda>k. k \<in> set SawyerDoorEnv_init_params) kw \<and> mujoco = Inr d \<longrightarrow>
        SawyerDoorEnv_init phys uniform mujoco c kw cfg = Inl (NameError ''Dict''))
   \<and> SawyerDoorPushOpenEnv_init phys uniform mujoco SawyerDoorPushOpenEnv kw cfg
        = Inl (TypeError ''min_angle'')
   \<and> SawyerDoorPushOpenActionLimitedEnv_init phys uniform mujoco kw cfg
        = Inl (TypeError ''min_angle'')
   \<and> SawyerDoorPullOpenEnv_init phys uniform mujoco kw cfg = Inl (TypeError ''min_angle'')"
proof -
  have "import_module = Inl (NameError ''logger'')"
    by (simp add: import_module_def module_imports_def module_body_def)
  moreover have "SawyerDoorEnv_init phys uniform mujoco c kw cfg = Inl (NameError ''Dict'')"
    if "list_all (\<lambda>k. k \<in> set SawyerDoorEnv_init_params) kw" and "mujoco = Inr d"
  proof -
    from that(1) have "find (\<lambda>k. k \<notin> set SawyerDoorEnv_init_params) kw = None"
      by (simp add: find_None_iff list_all_iff)
    with that(2) show ?thesis
      by (simp add: SawyerDoorEnv_init_def lookup_Dict Let_def)
  qed
  moreover have "SawyerDoorPushOpenEnv_init phys uniform mujoco SawyerDoorPushOpenEnv kw cfg
        = Inl (TypeError ''min_angle'')"
    by (simp add: SawyerDoorPushOpenEnv_init_def base_init_min_angle Let_def)
  moreover have "SawyerDoorPushOpenActionLimitedEnv_init phys uniform mujoco kw cfg
        = Inl (TypeError ''min_angle'')"
    by (simp add: SawyerDoorPushOpenActionLimitedEnv_init_def SawyerDoorPushOpenEnv_init_def
        base_init_min_angle Let_def)
  moreover have "SawyerDoorPullOpenEnv_init phys uniform mujoco kw cfg
        = Inl (TypeError ''min_angle'')"
    by (simp add: SawyerDoorPullOpenEnv_init_def base_init_min_angle Let_def)
  ultimately show ?thesis
    using base_init_raises [of phys uniform mujoco c kw cfg] by blast
qed

theorem construction_always_raises_witness:
  "list_all (\<lambda>k. k \<in> set SawyerDoorEnv_init_params) [''reward_type'', ''fix_goal'']
   \<and> SawyerDoorEnv_init example_physics no_uniform (Inr example_data) SawyerDoorEnv
        [''reward_type'', ''fix_goal''] default_config = Inl (NameError ''Dict'')"
proof -
  have h: "list_all (\<lambda>k. k \<in> set SawyerDoorEnv_init_params) [''reward_type'', ''fix_goal'']"
    by (simp add: SawyerDoorEnv_init_params_def)
  from construction_always_raises
    [where mujoco = "Inr example_data" and d = example_data
      and kw = "[''reward_type'', ''fix_goal'']" and phys = example_physics
      and uniform = no_uniform and c = SawyerDoorEnv and cfg = default_config] h
  show ?thesis by blast
qed

section \<open>Saving and restoring\<close>

text \<open>Restoring the snapshot just taken amounts to one extra call of the engine's
  \<^verbatim>\<open>forward\<close> on unchanged joint, mocap and goal values.\<close>

lemma set_env_state_get_env_state:
  "set_env_state phys self (get_env_state self) = self\<lparr>data := forward phys (data self)\<rparr>"
  by (simp add: set_env_state_def get_env_state_def Let_def)

lemma set_env_state_get_env_state_fixpoint:
  "forward phys (data self) = data self \<Longrightarrow>
     set_env_state phys self (get_env_state self) = self"
  by (simp add: set_env_state_get_env_state)

end
